theory Spec2Isabelle
  imports Complex_Main "HOL-Library.List_Lexorder" "HOL-Library.Char_ord"
begin

section \<open>Shared data model\<close>

text \<open>
  Exceptions of the Python source are values. \<open>SystemExit\<close> is kept apart (see
  \<open>outcome\<close> below), every other raise of the modelled code is one of these.
\<close>

datatype py_error =
    AssertionError string
  | ValueError string
  | IndexError
  | LookupError
  | ZeroDivisionError
  | RuntimeError

text \<open>
  \<open>Sentence\<close> objects of the evidence provider: raw text, entity-blinded text and the
  PMID of the document they come from.
\<close>

record sentence =
  "text" :: string
  text_blinded :: string
  pmid :: string

text \<open>\<open>"sep".join(xs)\<close> of Python.\<close>

fun join :: "string \<Rightarrow> string list \<Rightarrow> string" where
  "join sep [] = []"
| "join sep [x] = x"
| "join sep (x # y # ys) = x @ sep @ join sep (y # ys)"

section \<open>Candidate pairs: \<open>predict\<close>, cli.py lines 69-74\<close>

text \<open>
  The two nested loops that fill \<open>pairs_to_query\<close>. The accumulator is the list
  being appended to; the inner loop runs over \<open>maybe_mapped_p2s\<close> for one \<open>p1\<close>.
\<close>

fun pairs_for_p1 ::
  "bool \<Rightarrow> string \<Rightarrow> string list \<Rightarrow> (string \<times> string) list \<Rightarrow> (string \<times> string) list"
where
  "pairs_for_p1 skip_reverse p1 [] acc = acc"
| "pairs_for_p1 skip_reverse p1 (p2 # p2s) acc =
     (let acc1 = acc @ [(p1, p2)];
          acc2 = (if \<not> skip_reverse then acc1 @ [(p2, p1)] else acc1)
      in pairs_for_p1 skip_reverse p1 p2s acc2)"

fun pairs_loop ::
  "bool \<Rightarrow> string list \<Rightarrow> string list \<Rightarrow> (string \<times> string) list \<Rightarrow> (string \<times> string) list"
where
  "pairs_loop skip_reverse [] p2s acc = acc"
| "pairs_loop skip_reverse (p1 # p1s) p2s acc =
     pairs_loop skip_reverse p1s p2s (pairs_for_p1 skip_reverse p1 p2s acc)"

definition pairs_to_query :: "string list \<Rightarrow> string list \<Rightarrow> bool \<Rightarrow> (string \<times> string) list" where
  "pairs_to_query p1s p2s skip_reverse = pairs_loop skip_reverse p1s p2s []"

section \<open>Extraction ranker: \<open>predict\<close>, cli.py lines 172-184\<close>

text \<open>
  Scores are the entries of the tensor \<open>probs\<close>. They are modelled as rationals: every
  finite floating-point number is one, and the ranker only compares scores (\<open><\<close>,
  \<open>==\<close>) and sorts them. NaN is not modelled. The two-decimal rendering \<open>:.2f\<close> of a
  score is a parameter of the model (\<open>format_2f\<close> below); a record keeps the score that
  is rendered.
\<close>

record extraction =
  rec_label :: string
  rec_score :: rat
  rec_pmid :: string
  rec_text :: string
  rec_source :: string

text \<open>\<open>torch.sort(probs.view(-1), descending=True)[0]\<close>: the values only.\<close>

definition sort_descending :: "rat list \<Rightarrow> rat list" where
  "sort_descending xs = rev (sort xs)"

text \<open>
  \<open>zip(*torch.where(probs == max_score))\<close>: the index pairs of all cells that hold the
  value, in row-major order.
\<close>

definition where_eq :: "rat list list \<Rightarrow> rat \<Rightarrow> (nat \<times> nat) list" where
  "where_eq probs max_score =
     [(i, j). i \<leftarrow> [0..<length probs], j \<leftarrow> [0..<length (probs ! i)], probs ! i ! j = max_score]"

text \<open>
  The control flow of lines 178-181: the list of \<open>(max_score, i, j)\<close> for which the
  loop body (lines 182-184) runs, in the order in which it runs.
\<close>

fun walk_cells :: "rat \<Rightarrow> rat list list \<Rightarrow> rat list \<Rightarrow> (rat \<times> nat \<times> nat) list" where
  "walk_cells cutoff probs [] = []"
| "walk_cells cutoff probs (max_score # rest) =
     (if max_score < cutoff then walk_cells cutoff probs rest
      else map (\<lambda>(i, j). (max_score, i, j)) (where_eq probs max_score)
           @ walk_cells cutoff probs rest)"

text \<open>
  The loop body, lines 182-184. \<open>PEDLDataset.id_to_label\<close> is not part of the sources
  and is a parameter; a missing key and an index past the end of \<open>all_sentences\<close>
  raise.
\<close>

definition write_record ::
  "(nat \<rightharpoonup> string) \<Rightarrow> sentence list \<Rightarrow> rat \<times> nat \<times> nat \<Rightarrow> py_error + extraction"
where
  "write_record id_to_label all_sentences cell =
     (case cell of (max_score, i, j) \<Rightarrow>
        (case id_to_label j of
           None \<Rightarrow> Inl LookupError
         | Some lbl \<Rightarrow>
             if i < length all_sentences
             then Inr \<lparr>rec_label = lbl, rec_score = max_score,
                       rec_pmid = pmid (all_sentences ! i),
                       rec_text = text (all_sentences ! i),
                       rec_source = ''PEDL''\<rparr>
             else Inl IndexError))"

text \<open>Running a fallible step over a list; the first exception ends the run.\<close>

fun collect :: "('a \<Rightarrow> py_error + 'b) \<Rightarrow> 'a list \<Rightarrow> py_error + 'b list" where
  "collect step [] = Inr []"
| "collect step (x # xs) =
     (case step x of
        Inl e \<Rightarrow> Inl e
      | Inr y \<Rightarrow> (case collect step xs of Inl e \<Rightarrow> Inl e | Inr ys \<Rightarrow> Inr (y # ys)))"

definition extraction_ranker ::
  "(nat \<rightharpoonup> string) \<Rightarrow> sentence list \<Rightarrow> rat \<Rightarrow> rat list list \<Rightarrow> py_error + extraction list"
where
  "extraction_ranker id_to_label all_sentences cutoff probs =
     collect (write_record id_to_label all_sentences)
       (walk_cells cutoff probs (sort_descending (concat probs)))"

text \<open>
  \<open>(probs < threshold).all()\<close>: every cell is below the threshold. Line 172 calls it
  with the cutoff rounded to single precision (see \<open>rank_and_write\<close>).
\<close>

definition all_below :: "rat \<Rightarrow> rat list list \<Rightarrow> bool" where
  "all_below cutoff probs = list_all (\<lambda>row. list_all (\<lambda>p. p < cutoff) row) probs"

text \<open>\<open>torch.cat\<close> of a list of matrices along the first axis; it rejects the empty list.\<close>

definition torch_cat :: "'a list list \<Rightarrow> py_error + 'a list" where
  "torch_cat tensors = (if tensors = [] then Inl RuntimeError else Inr (concat tensors))"

section \<open>Chunking helper\<close>

text \<open>
  Modelled from the spec: \<open>chunks\<close> of \<open>pedl/utils.py\<close>, whose source is not available.
  The spec describes a pure function from a sequence and a chunk size to the finite
  sequence of its consecutive fixed-size sub-sequences, the last one possibly shorter.
  The spec gives no result for the chunk size 0; there the model answers \<open>None\<close>.
\<close>

function chunks_from :: "nat \<Rightarrow> 'a list \<Rightarrow> 'a list list" where
  "chunks_from n lst = (if n = 0 \<or> lst = [] then [] else take n lst # chunks_from n (drop n lst))"
  by pat_completeness auto
termination
  by (relation "measure (\<lambda>(n, lst). length lst)") auto

declare chunks_from.simps [simp del]

definition chunks :: "'a list \<Rightarrow> nat \<Rightarrow> 'a list list option" where
  "chunks lst n = (if n = 0 then None else Some (chunks_from n lst))"

section \<open>Collecting and scoring the evidence: \<open>predict\<close>, cli.py lines 142-162\<close>

text \<open>
  Lines 151-162: one call of the scoring model per batch, on the blinded texts. The
  tokenizer, the padding, the network and the sigmoid are one external capability
  \<open>scorer\<close> from a batch of blinded texts to a matrix of scores.
\<close>

fun score_batches ::
  "(string list \<Rightarrow> rat list list) \<Rightarrow> sentence list list \<Rightarrow> rat list list list \<Rightarrow> rat list list list"
where
  "score_batches scorer [] probs = probs"
| "score_batches scorer (sentences_batch # rest) probs =
     score_batches scorer rest (probs @ [scorer (map text_blinded sentences_batch)])"

text \<open>
  Lines 146-162: the loop over the evidence chunks of one pair. The state is
  \<open>(probs, all_sentences, processed_sentences)\<close>. \<open>sorted\<close> is stable, as
  \<open>sort_key\<close> is. A chunk size that \<open>chunks\<close> does not accept ends the run.
\<close>

fun gather ::
  "(string list \<Rightarrow> rat list list) \<Rightarrow> nat \<Rightarrow> sentence list list \<Rightarrow>
   rat list list list \<times> sentence list \<times> string set \<Rightarrow>
   py_error + (rat list list list \<times> sentence list \<times> string set)"
where
  "gather scorer batch_size [] state = Inr state"
| "gather scorer batch_size (sentences_chunk # rest) (probs, all_sentences, processed_sentences) =
     (let sorted_chunk = sort_key (\<lambda>x. length (text x)) sentences_chunk;
          sentences = filter (\<lambda>i. text i \<notin> processed_sentences) sorted_chunk;
          processed_sentences' = processed_sentences \<union> set (map text sentences);
          all_sentences' = all_sentences @ sentences
      in case chunks sentences batch_size of
           None \<Rightarrow> Inl (ValueError ''chunk size'')
         | Some batches \<Rightarrow>
             gather scorer batch_size rest
               (score_batches scorer batches probs, all_sentences', processed_sentences'))"

section \<open>The output file of a pair: \<open>predict\<close>, cli.py lines 120-188\<close>

abbreviation TAB :: string where "TAB \<equiv> [CHR 0x09]"
abbreviation NL :: string where "NL \<equiv> [CHR 0x0A]"

text \<open>
  A file opened for writing is the list of the texts given to \<open>f.write\<close> so far.
  Python writes through buffers, a text layer over a binary layer: how many of the bytes
  written have reached the disk while the file is still open depends on the runtime and
  on the platform. It is a parameter of the model (\<open>flushed_while_open\<close>, from the
  writes so far to a number of bytes); what is on disk is that prefix of the text
  written, whatever the parameter answers. Closing the file writes everything.
  \<open>os.path.getsize\<close> reads the size on disk: lines 166 and 174 ask for it inside the
  \<open>with\<close> block, while the file is open; line 187 asks after the block has closed
  the file.
\<close>

definition fopen_w :: "string list" where
  "fopen_w = []"

definition fwrite :: "string list \<Rightarrow> string \<Rightarrow> string list" where
  "fwrite f s = f @ [s]"

definition fclose :: "string list \<Rightarrow> string" where
  "fclose f = concat f"

definition on_disk_while_open :: "(string list \<Rightarrow> nat) \<Rightarrow> string list \<Rightarrow> string" where
  "on_disk_while_open flushed f = take (flushed f) (concat f)"

text \<open>
  Database statements (lines 131-140). A statement carries the name of its class and
  its evidence, each evidence its \<open>pmid\<close> and \<open>source_id\<close>.
\<close>

record statement =
  class_name :: string
  evidence :: "(string \<times> string) list"

record database =
  name :: string
  get_statements :: "string \<Rightarrow> string \<Rightarrow> statement list"

definition db_result :: "database \<Rightarrow> statement \<Rightarrow> string" where
  "db_result db stmt =
     class_name stmt @ TAB @ ''1.0'' @ TAB @ join '','' (map fst (evidence stmt)) @ TAB
       @ join '','' (map snd (evidence stmt)) @ TAB @ name db @ NL @ NL"

fun write_statements ::
  "database \<Rightarrow> statement list \<Rightarrow> string set \<times> string list \<Rightarrow> string set \<times> string list"
where
  "write_statements db [] state = state"
| "write_statements db (stmt # stmts) (processed_db_results, f) =
     write_statements db stmts
       (insert (db_result db stmt) processed_db_results,
        if db_result db stmt \<notin> processed_db_results
        then fwrite f (db_result db stmt) else f)"

fun write_db_results ::
  "string \<Rightarrow> string \<Rightarrow> database list \<Rightarrow> string set \<times> string list \<Rightarrow> string set \<times> string list"
where
  "write_db_results p1 p2 [] state = state"
| "write_db_results p1 p2 (db # dbs) state =
     write_db_results p1 p2 dbs (write_statements db (get_statements db p1 p2) state)"

text \<open>Line 184: the text written for one record.\<close>

definition record_line :: "(rat \<Rightarrow> string) \<Rightarrow> extraction \<Rightarrow> string" where
  "record_line format_2f r =
     rec_label r @ TAB @ format_2f (rec_score r) @ TAB @ rec_pmid r @ TAB @ rec_text r @ TAB
       @ rec_source r @ NL @ NL"

text \<open>
  The records written before the first exception of a run of a fallible step: what the
  loop of lines 178-184 has given to \<open>f.write\<close> when \<open>write_record\<close> raises.
\<close>

fun written_before_error :: "('a \<Rightarrow> py_error + 'b) \<Rightarrow> 'a list \<Rightarrow> 'b list" where
  "written_before_error step [] = []"
| "written_before_error step (x # xs) =
     (case step x of Inl e \<Rightarrow> [] | Inr y \<Rightarrow> y # written_before_error step xs)"

text \<open>
  The command-line arguments of \<open>predict\<close> that the modelled code reads, and its
  collaborators. \<open>args_p1\<close> and \<open>args_p2\<close> are the identifier lists after lines 40-50.
  \<open>args_dbs\<close> holds the databases that lines 106-116 construct.

  Three collaborators belong to the Python runtime. \<open>str_isnumeric\<close> is
  \<open>str.isnumeric\<close>, whose answer rests on the Unicode character table.
  \<open>to_float32\<close> is the rounding of a Python float to single precision: line 172
  compares the float32 tensor \<open>probs\<close> with the cutoff in single precision, while
  line 179 compares \<open>max_score.item()\<close> with the cutoff as it is.
  \<open>flushed_while_open\<close> is described above.
\<close>

record predict_args =
  args_p1 :: "string list"
  args_p2 :: "string list"
  args_out :: string
  args_pubtator :: "string option"
  args_cutoff :: rat
  args_batch_size :: nat
  args_skip_reverse :: bool
  args_dbs :: "database list"

record services =
  hgnc_to_gene_id :: "string \<rightharpoonup> string"
  geneid_to_name :: "string \<rightharpoonup> string"
  get_sentences :: "string \<Rightarrow> string \<Rightarrow> sentence list list"
  model_probs :: "string list \<Rightarrow> rat list list"
  id_to_label :: "nat \<rightharpoonup> string"
  format_2f :: "rat \<Rightarrow> string"
  str_isnumeric :: "string \<Rightarrow> bool"
  to_float32 :: "rat \<Rightarrow> rat"
  flushed_while_open :: "string list \<Rightarrow> nat"

text \<open>\<open>geneid_to_name.get(p, p)\<close>.\<close>

definition gene_name :: "services \<Rightarrow> string \<Rightarrow> string" where
  "gene_name svc p = (case geneid_to_name svc p of Some n \<Rightarrow> n | None \<Rightarrow> p)"

definition path_out :: "services \<Rightarrow> predict_args \<Rightarrow> string \<Rightarrow> string \<Rightarrow> string" where
  "path_out svc args p1 p2 =
     args_out args @ ''/'' @ gene_name svc p1 @ ''-'' @ gene_name svc p2 @ ''.txt''"

text \<open>
  Lines 164-168 and 172-176: leaving the \<open>with\<close> block early. The size is read while
  the file is open; a file removed here stays removed when the block closes it.
\<close>

definition leave_early ::
  "services \<Rightarrow> (string \<rightharpoonup> string) \<Rightarrow> string \<Rightarrow> string list \<Rightarrow> (string \<rightharpoonup> string)"
where
  "leave_early svc fs path f =
     (if length (on_disk_while_open (flushed_while_open svc) f) = 0 then fs(path := None)
      else fs(path \<mapsto> fclose f))"

text \<open>Lines 186-188: the block has closed the file, then the size is read.\<close>

definition leave_closed :: "(string \<rightharpoonup> string) \<Rightarrow> string \<Rightarrow> string list \<Rightarrow> (string \<rightharpoonup> string)" where
  "leave_closed fs path f =
     (if length (fclose f) = 0 then fs(path := None) else fs(path \<mapsto> fclose f))"

text \<open>
  An exception leaves the \<open>with\<close> block: the block closes the file, none of the size
  checks is reached, and the file that line 130 has created or truncated stays, with
  what was written to it (possibly nothing).
\<close>

definition leave_raising :: "(string \<rightharpoonup> string) \<Rightarrow> string \<Rightarrow> string list \<Rightarrow> (string \<rightharpoonup> string)" where
  "leave_raising fs path f = fs(path \<mapsto> fclose f)"

text \<open>
  One iteration of the loop over \<open>pairs_to_query\<close> (lines 120-188), as a step on the
  files of the output directory: \<open>process_pair\<close> opens the file, writes the database
  results and collects the evidence; \<open>rank_and_write\<close> is the rest of the \<open>with\<close>
  block from line 164 on. The result is the files after the step, or the exception
  that escapes together with the files it leaves behind.
\<close>

definition rank_and_write ::
  "services \<Rightarrow> predict_args \<Rightarrow> (string \<rightharpoonup> string) \<Rightarrow> string \<Rightarrow> string list \<Rightarrow>
   py_error + (rat list list list \<times> sentence list \<times> string set) \<Rightarrow>
   py_error \<times> (string \<rightharpoonup> string) + (string \<rightharpoonup> string)"
where
  "rank_and_write svc args fs path f gathered =
     (case gathered of
        Inl e \<Rightarrow> Inl (e, leave_raising fs path f)
      | Inr (probs_list, all_sentences, processed_sentences) \<Rightarrow>
          if all_sentences = [] then Inr (leave_early svc fs path f)
          else
            (case torch_cat probs_list of
               Inl e \<Rightarrow> Inl (e, leave_raising fs path f)
             | Inr probs \<Rightarrow>
                 if all_below (to_float32 svc (args_cutoff args)) probs
                 then Inr (leave_early svc fs path f)
                 else
                   (case extraction_ranker (id_to_label svc) all_sentences
                           (args_cutoff args) probs of
                      Inl e \<Rightarrow>
                        Inl (e, leave_raising fs path
                                  (foldl fwrite f
                                     (map (record_line (format_2f svc))
                                        (written_before_error
                                           (write_record (id_to_label svc) all_sentences)
                                           (walk_cells (args_cutoff args) probs
                                              (sort_descending (concat probs)))))))
                    | Inr records \<Rightarrow>
                        Inr (leave_closed fs path
                               (foldl fwrite f (map (record_line (format_2f svc)) records))))))"

definition process_pair ::
  "services \<Rightarrow> predict_args \<Rightarrow> (string \<rightharpoonup> string) \<Rightarrow> string \<times> string \<Rightarrow>
   py_error \<times> (string \<rightharpoonup> string) + (string \<rightharpoonup> string)"
where
  "process_pair svc args fs pair =
     (case pair of (p1, p2) \<Rightarrow>
        if p1 = p2 then Inr fs
        else rank_and_write svc args fs (path_out svc args p1 p2)
               (snd (write_db_results p1 p2 (args_dbs args) ({}, fopen_w)))
               (gather (model_probs svc) (args_batch_size args) (get_sentences svc p1 p2)
                  ([], [], {})))"

section \<open>The command \<open>predict\<close>: cli.py lines 53-77 and 119-188\<close>

text \<open>
  Lines 53-67: the loop that maps HGNC symbols to gene ids; the \<open>assert\<close> raises.
  \<open>isnumeric\<close> is \<open>str.isnumeric\<close>.
\<close>

fun maybe_mapped ::
  "(string \<Rightarrow> bool) \<Rightarrow> (string \<rightharpoonup> string) \<Rightarrow> string list \<Rightarrow> string list \<Rightarrow> py_error + string list"
where
  "maybe_mapped isnumeric hgnc [] mapped = Inr mapped"
| "maybe_mapped isnumeric hgnc (p # ps) mapped =
     (if \<not> isnumeric p then
        (case hgnc p of
           None \<Rightarrow> Inl (AssertionError (p @ '' is neither a valid HGNC symbol nor a Entrez gene id''))
         | Some gene_id \<Rightarrow> maybe_mapped isnumeric hgnc ps (mapped @ [gene_id]))
      else maybe_mapped isnumeric hgnc ps (mapped @ [p]))"

text \<open>\<open>str\<close> of a natural number, for the message of line 76.\<close>

function str_nat :: "nat \<Rightarrow> string" where
  "str_nat n =
     (if n < 10 then [''0123456789'' ! n]
      else str_nat (n div 10) @ [''0123456789'' ! (n mod 10)])"
  by pat_completeness auto
termination
  by (relation "measure (\<lambda>n. n)") auto

declare str_nat.simps [simp del]

definition cap_message :: "nat \<Rightarrow> string" where
  "cap_message n =
     ''Using PEDL without a local PubTator copy is only supported for small queries up to 100 protein pairs. Your query contains ''
       @ str_nat n @ '' pairs. Aborting.''"

text \<open>
  How a run of \<open>predict\<close> ends: it returns, it leaves through \<open>sys.exit\<close> with an exit
  code, or an exception escapes.
\<close>

datatype outcome = Done | Exit nat | Raised py_error

text \<open>
  Lines 119-188: the loop over the pairs. An exception ends the run, with the files as
  the failing step leaves them.
\<close>

fun run_pairs ::
  "services \<Rightarrow> predict_args \<Rightarrow> (string \<times> string) list \<Rightarrow> (string \<rightharpoonup> string) \<Rightarrow>
   (string \<rightharpoonup> string) \<times> outcome"
where
  "run_pairs svc args [] fs = (fs, Done)"
| "run_pairs svc args (pair # rest) fs =
     (case process_pair svc args fs pair of
        Inl (e, fs') \<Rightarrow> (fs', Raised e)
      | Inr fs' \<Rightarrow> run_pairs svc args rest fs')"

text \<open>
  \<open>predict\<close> from the identifier lists on. The result is the files of the output
  directory, the lines printed, and the outcome. Evidence retrieval
  (\<open>get_sentences\<close>, \<open>get_statements\<close>) and scoring (\<open>model_probs\<close>) are reached through
  \<open>run_pairs\<close> only. Lines 79-116 set up the collaborators (device, model, data
  getter, tokenizer, output directory, database objects); they are left out, and the
  import of lines 107-112 is taken to succeed.
\<close>

definition predict ::
  "services \<Rightarrow> predict_args \<Rightarrow> (string \<rightharpoonup> string) \<Rightarrow> (string \<rightharpoonup> string) \<times> string list \<times> outcome"
where
  "predict svc args fs =
     (case maybe_mapped (str_isnumeric svc) (hgnc_to_gene_id svc) (args_p1 args) [] of
        Inl e \<Rightarrow> (fs, [], Raised e)
      | Inr maybe_mapped_p1s \<Rightarrow>
          (case maybe_mapped (str_isnumeric svc) (hgnc_to_gene_id svc) (args_p2 args) [] of
             Inl e \<Rightarrow> (fs, [], Raised e)
           | Inr maybe_mapped_p2s \<Rightarrow>
               (let pairs = pairs_to_query maybe_mapped_p1s maybe_mapped_p2s (args_skip_reverse args)
                in if 100 < length pairs \<and> args_pubtator args = None
                   then (fs, [cap_message (length pairs)], Exit 1)
                   else (fst (run_pairs svc args pairs fs), [],
                         snd (run_pairs svc args pairs fs)))))"

section \<open>Batched forward pass: bert_for_distant_supervision.py lines 135-156\<close>

text \<open>
  \<open>forward\<close> is a parameter: it maps a batch (\<open>input_ids\<close>, \<open>attention_mask\<close>) to the
  pooled \<open>bag_logits\<close> and the two entries \<open>alphas\<close> and \<open>alphas_by_rel\<close> of \<open>meta\<close>,
  the latter with one row per input row. Its arithmetic is floating point inside
  external modules. A batch size is a natural number, 0 being the falsy one.
\<close>

text \<open>\<open>t[indices_batch]\<close>: the rows of \<open>t\<close> at the given indices.\<close>

definition index_select :: "'a list \<Rightarrow> nat list \<Rightarrow> py_error + 'a list" where
  "index_select t indices =
     (if list_all (\<lambda>i. i < length t) indices then Inr (map (\<lambda>i. t ! i) indices)
      else Inl IndexError)"

fun forward_chunks ::
  "('i list \<Rightarrow> 'm list \<Rightarrow> 'l list \<times> 'a list \<times> 'r list) \<Rightarrow> 'i list \<Rightarrow> 'm list \<Rightarrow> nat list list \<Rightarrow>
   'l list list \<times> 'a list list \<times> 'r list list \<Rightarrow>
   py_error + ('l list list \<times> 'a list list \<times> 'r list list)"
where
  "forward_chunks forward input_ids attention_mask [] collected = Inr collected"
| "forward_chunks forward input_ids attention_mask (indices_batch # rest)
       (logits_all, alphas_all, alphas_by_rel_all) =
     (case index_select input_ids indices_batch of
        Inl e \<Rightarrow> Inl e
      | Inr input_ids_batch \<Rightarrow>
          (case index_select attention_mask indices_batch of
             Inl e \<Rightarrow> Inl e
           | Inr attention_mask_batch \<Rightarrow>
               (case forward input_ids_batch attention_mask_batch of
                  (logits, alphas, alphas_by_rel) \<Rightarrow>
                    forward_chunks forward input_ids attention_mask rest
                      (logits_all @ [logits], alphas_all @ [alphas],
                       alphas_by_rel_all @ [alphas_by_rel]))))"

definition forward_batched ::
  "('i list \<Rightarrow> 'm list \<Rightarrow> 'l list \<times> 'a list \<times> 'r list) \<Rightarrow> 'i list \<Rightarrow> 'm list \<Rightarrow> nat \<Rightarrow>
   py_error + ('l list \<times> 'a list \<times> 'r list)"
where
  "forward_batched forward input_ids attention_mask batch_size =
     (if batch_size = 0 then Inr (forward input_ids attention_mask)
      else
        (case chunks [0..<length input_ids] batch_size of
           None \<Rightarrow> Inl (ValueError ''chunk size'')
         | Some index_chunks \<Rightarrow>
             (case forward_chunks forward input_ids attention_mask index_chunks ([], [], []) of
                Inl e \<Rightarrow> Inl e
              | Inr (logits_all, alphas_all, alphas_by_rel_all) \<Rightarrow>
                  (case torch_cat logits_all of
                     Inl e \<Rightarrow> Inl e
                   | Inr logits \<Rightarrow> Inr (logits, concat alphas_all, concat alphas_by_rel_all)))))"

section \<open>The command \<open>build_training_set\<close>: cli.py lines 191-251\<close>

record entity =
  cuid :: string
  type :: string

text \<open>
  A Python \<open>set\<close> is kept as the list of its elements in insertion order, without
  duplicates. The order in which a set is iterated is not fixed by the program: for
  strings, and for tuples of strings, it follows hash values that change from one
  interpreter process to the next. The model takes it as a parameter, one function for
  each element type that the code iterates.
\<close>

definition set_add :: "'a \<Rightarrow> 'a list \<Rightarrow> 'a list" where
  "set_add x s = (if x \<in> set s then s else s @ [x])"

record set_order =
  iter_str :: "string list \<Rightarrow> string list"
  iter_pairs :: "(entity \<times> entity) list \<Rightarrow> (entity \<times> entity) list"

text \<open>
  A \<open>defaultdict(set)\<close> is an association list in insertion order of its keys.
  \<open>dict_add k v d\<close> is \<open>d[k].add(v)\<close>, \<open>dict_get d k\<close> is \<open>d[k]\<close>.
\<close>

fun dict_add :: "'k \<Rightarrow> 'v \<Rightarrow> ('k \<times> 'v list) list \<Rightarrow> ('k \<times> 'v list) list" where
  "dict_add k v [] = [(k, [v])]"
| "dict_add k v ((k', s) # d) =
     (if k = k' then (k', set_add v s) # d else (k', s) # dict_add k v d)"

definition dict_get :: "('k \<times> 'v list) list \<Rightarrow> 'k \<Rightarrow> 'v list" where
  "dict_get d k = (case map_of d k of Some s \<Rightarrow> s | None \<Rightarrow> [])"

text \<open>
  Lines 198-218. The input is the list of the field lists of the lines of the triples
  file (each line stripped and split at tabs). The state is \<open>pair_to_relations\<close> and
  the two universes.
\<close>

definition add_to_universe ::
  "entity \<Rightarrow> string set \<times> string set \<Rightarrow> py_error + (string set \<times> string set)"
where
  "add_to_universe e universes =
     (case universes of (gene_universe, chemical_universe) \<Rightarrow>
        if type e = ''Chemical'' then Inr (gene_universe, insert (cuid e) chemical_universe)
        else if type e = ''Gene'' then Inr (insert (cuid e) gene_universe, chemical_universe)
        else Inl (ValueError (type e)))"

fun read_triples ::
  "string list list \<Rightarrow> ((entity \<times> entity) \<times> string list) list \<times> string set \<times> string set \<Rightarrow>
   py_error + (((entity \<times> entity) \<times> string list) list \<times> string set \<times> string set)"
where
  "read_triples [] state = Inr state"
| "read_triples (line_fields # rest) (pair_to_relations, universes) =
     (if line_fields = [] then read_triples rest (pair_to_relations, universes)
      else
        (case line_fields of
           [type_head, cuid_head, type_tail, cuid_tail, rel] \<Rightarrow>
             (let head = \<lparr>cuid = cuid_head, type = type_head\<rparr>;
                  tail = \<lparr>cuid = cuid_tail, type = type_tail\<rparr>
              in case add_to_universe head universes of
                   Inl e \<Rightarrow> Inl e
                 | Inr universes1 \<Rightarrow>
                     (case add_to_universe tail universes1 of
                        Inl e \<Rightarrow> Inl e
                      | Inr universes2 \<Rightarrow>
                          read_triples rest
                            (dict_add (head, tail) rel pair_to_relations, universes2)))
         | _ \<Rightarrow> Inl (ValueError ''unpack'')))"

text \<open>The methods of the \<open>DataGetter\<close> that the crawl calls; they are external.\<close>

record 'doc data_getter =
  get_pmids :: "entity \<Rightarrow> string list"
  get_documents :: "string list \<Rightarrow> 'doc list list"
  get_sentences_from_document :: "entity \<Rightarrow> entity \<Rightarrow> 'doc \<Rightarrow> sentence list"

text \<open>Lines 227-234: filling \<open>pmid_to_pairs\<close>.\<close>

fun add_pmids ::
  "entity \<times> entity \<Rightarrow> string list \<Rightarrow> (string \<times> (entity \<times> entity) list) list \<Rightarrow>
   (string \<times> (entity \<times> entity) list) list"
where
  "add_pmids pair [] pmid_to_pairs = pmid_to_pairs"
| "add_pmids pair (p # ps) pmid_to_pairs = add_pmids pair ps (dict_add p pair pmid_to_pairs)"

fun prepare_crawl ::
  "'doc data_getter \<Rightarrow> set_order \<Rightarrow> ((entity \<times> entity) \<times> string list) list \<Rightarrow>
   (string \<times> (entity \<times> entity) list) list \<Rightarrow> (string \<times> (entity \<times> entity) list) list"
where
  "prepare_crawl dg order [] pmid_to_pairs = pmid_to_pairs"
| "prepare_crawl dg order ((pair, relations) # rest) pmid_to_pairs =
     (let shared_pmids =
            filter (\<lambda>p. p \<in> set (get_pmids dg (snd pair))) (get_pmids dg (fst pair))
      in prepare_crawl dg order rest (add_pmids pair (iter_str order shared_pmids) pmid_to_pairs))"

text \<open>
  Lines 249-251: the two writes for each sentence. A shard file is the list of the
  lines written to it, each ending in a newline; its bytes are their concatenation.
\<close>

fun write_sentences ::
  "set_order \<Rightarrow> entity \<Rightarrow> entity \<Rightarrow> string list \<Rightarrow> sentence list \<Rightarrow>
   string list \<times> string list \<Rightarrow> string list \<times> string list"
where
  "write_sentences order head tail relations [] files = files"
| "write_sentences order head tail relations (s # rest) (f, f_blinded) =
     write_sentences order head tail relations rest
       (f @ [join TAB [type head, cuid head, type tail, cuid tail,
                       join '','' (iter_str order relations), text s, pmid s] @ NL],
        f_blinded @ [join TAB [type head, cuid head, type tail, cuid tail,
                               join '','' (iter_str order relations), text_blinded s, pmid s] @ NL])"

text \<open>Lines 244-251: the loop over the pairs of one PMID.\<close>

fun write_pairs ::
  "'doc data_getter \<Rightarrow> set_order \<Rightarrow> ((entity \<times> entity) \<times> string list) list \<Rightarrow> 'doc \<Rightarrow>
   (entity \<times> entity) list \<Rightarrow> string list \<times> string list \<Rightarrow> string list \<times> string list"
where
  "write_pairs dg order pair_to_relations doc [] files = files"
| "write_pairs dg order pair_to_relations doc ((head, tail) # rest) files =
     write_pairs dg order pair_to_relations doc rest
       (write_sentences order head tail (dict_get pair_to_relations (head, tail))
          (get_sentences_from_document dg head tail doc) files)"

text \<open>Lines 240-251: the body of the crawl loop for one PMID.\<close>

definition crawl_pmid ::
  "'doc data_getter \<Rightarrow> set_order \<Rightarrow> ((entity \<times> entity) \<times> string list) list \<Rightarrow>
   (string \<times> (entity \<times> entity) list) list \<Rightarrow> string \<Rightarrow> string list \<times> string list \<Rightarrow>
   py_error + (string list \<times> string list)"
where
  "crawl_pmid dg order pair_to_relations pmid_to_pairs p files =
     (case get_documents dg [p] of
        [] \<Rightarrow> Inl IndexError
      | docs # _ \<Rightarrow>
          (case docs of
             [] \<Rightarrow> Inr files
           | doc # _ \<Rightarrow>
               Inr (write_pairs dg order pair_to_relations doc
                      (iter_pairs order (dict_get pmid_to_pairs p)) files)))"

text \<open>
  Lines 237-239: the loop over \<open>enumerate(sorted(pmid_to_pairs))\<close> with its guard, for
  any loop body. \<open>n_worker\<close> and \<open>worker_id\<close> are Python integers; \<open>%\<close> by zero raises.
\<close>

fun crawl_loop ::
  "int \<Rightarrow> int \<Rightarrow> (string \<Rightarrow> 's \<Rightarrow> py_error + 's) \<Rightarrow> (nat \<times> string) list \<Rightarrow> 's \<Rightarrow> py_error + 's"
where
  "crawl_loop n_worker worker_id body [] state = Inr state"
| "crawl_loop n_worker worker_id body ((i, p) # rest) state =
     (if n_worker = 0 then Inl ZeroDivisionError
      else if \<not> (int i mod n_worker = worker_id) then crawl_loop n_worker worker_id body rest state
      else
        (case body p state of
           Inl e \<Rightarrow> Inl e
         | Inr state' \<Rightarrow> crawl_loop n_worker worker_id body rest state'))"

text \<open>
  The whole command. \<open>DataGetter\<close> constructs the data getter from the two universes.
  The result is the pair of shard files, raw and blinded.
\<close>

definition build_training_set ::
  "(string set \<Rightarrow> string set \<Rightarrow> 'doc data_getter) \<Rightarrow> set_order \<Rightarrow> string list list \<Rightarrow> int \<Rightarrow> int \<Rightarrow>
   py_error + (string list \<times> string list)"
where
  "build_training_set DataGetter order triples n_worker worker_id =
     (case read_triples triples ([], {}, {}) of
        Inl e \<Rightarrow> Inl e
      | Inr (pair_to_relations, gene_universe, chemical_universe) \<Rightarrow>
          (let dg = DataGetter chemical_universe gene_universe;
               pmid_to_pairs = prepare_crawl dg order pair_to_relations []
           in crawl_loop n_worker worker_id (crawl_pmid dg order pair_to_relations pmid_to_pairs)
                (enumerate 0 (sort (map fst pmid_to_pairs))) ([], [])))"

section \<open>What a worker is to process, in the words of the spec\<close>

text \<open>
  The definitions of this section are not translations of code. They say what the spec
  (section 4.5) asks of a worker, and the theorems on \<open>build_training_set\<close> compare the
  code with them.

  \<open>worker_share N w pmids\<close>: the PMIDs at the positions \<open>p\<close> of the list with
  \<open>p mod N = w\<close>, in the order of the list.
\<close>

definition worker_share :: "int \<Rightarrow> int \<Rightarrow> string list \<Rightarrow> string list" where
  "worker_share N w pmids = [pmids ! p. p \<leftarrow> [0..<length pmids], int p mod N = w]"

text \<open>Processing the PMIDs of a list one after the other; the first exception ends it.\<close>

fun process_each :: "(string \<Rightarrow> 's \<Rightarrow> py_error + 's) \<Rightarrow> string list \<Rightarrow> 's \<Rightarrow> py_error + 's" where
  "process_each body [] state = Inr state"
| "process_each body (p # ps) state =
     (case body p state of
        Inl e \<Rightarrow> Inl e
      | Inr state' \<Rightarrow> process_each body ps state')"

text \<open>
  The training records of one PMID: for the first document of the PMID (none if it has
  no document), for every pair recorded for the PMID, one record for every sentence
  that \<open>get_sentences_from_document\<close> returns for the pair and the document. A record
  is the head, the tail, the relation set of the pair and the sentence.
\<close>

definition training_records ::
  "'doc data_getter \<Rightarrow> set_order \<Rightarrow> ((entity \<times> entity) \<times> string list) list \<Rightarrow>
   (string \<times> (entity \<times> entity) list) list \<Rightarrow> string \<Rightarrow>
   (entity \<times> entity \<times> string list \<times> sentence) list"
where
  "training_records dg order pair_to_relations pmid_to_pairs p =
     (case get_documents dg [p] of
        (doc # _) # _ \<Rightarrow>
          [(head, tail, dict_get pair_to_relations (head, tail), s).
             (head, tail) \<leftarrow> iter_pairs order (dict_get pmid_to_pairs p),
             s \<leftarrow> get_sentences_from_document dg head tail doc]
      | _ \<Rightarrow> [])"

text \<open>
  The line of a record (spec, section 6), with the sentence field chosen by
  \<open>sentence_field\<close>: \<open>text\<close> for the raw shard, \<open>text_blinded\<close> for the blinded one.
\<close>

definition training_line ::
  "set_order \<Rightarrow> (sentence \<Rightarrow> string) \<Rightarrow> entity \<times> entity \<times> string list \<times> sentence \<Rightarrow> string"
where
  "training_line order sentence_field rec =
     (case rec of (head, tail, relations, s) \<Rightarrow>
        join TAB [type head, cuid head, type tail, cuid tail,
                  join '','' (iter_str order relations), sentence_field s, pmid s] @ NL)"

section \<open>Example inputs of the crawl\<close>

definition example_sentence :: sentence where
  "example_sentence =
     \<lparr>text = ''MDM2 binds TP53'', text_blinded = ''<e1> binds <e2>'', pmid = ''100''\<rparr>"

definition example_getter :: "string set \<Rightarrow> string set \<Rightarrow> unit data_getter" where
  "example_getter chemical_universe gene_universe =
     \<lparr>get_pmids = (\<lambda>e. [''100'']),
      get_documents = (\<lambda>pmids. [[()]]),
      get_sentences_from_document = (\<lambda>head tail doc. [example_sentence])\<rparr>"

definition example_triples :: "string list list" where
  "example_triples =
     [[''Gene'', ''4193'', ''Gene'', ''7157'', ''binds''],
      [''Gene'', ''4193'', ''Gene'', ''7157'', ''inhibits'']]"

definition insertion_order :: set_order where
  "insertion_order = \<lparr>iter_str = (\<lambda>s. s), iter_pairs = (\<lambda>s. s)\<rparr>"

definition reverse_order :: set_order where
  "reverse_order = \<lparr>iter_str = rev, iter_pairs = rev\<rparr>"

text \<open>
  A data getter over three documents: every entity is mentioned in the PMIDs 30, 10 and
  20 (in this order), a document is its PMID, and a pair has one sentence in each.
\<close>

definition corpus_getter :: "string set \<Rightarrow> string set \<Rightarrow> string data_getter" where
  "corpus_getter chemical_universe gene_universe =
     \<lparr>get_pmids = (\<lambda>e. [''30'', ''10'', ''20'']),
      get_documents = (\<lambda>pmids. map (\<lambda>p. [p]) pmids),
      get_sentences_from_document =
        (\<lambda>head tail doc.
           [\<lparr>text = ''MDM2 binds TP53'', text_blinded = ''<e1> binds <e2>'', pmid = doc\<rparr>])\<rparr>"

section \<open>Example inputs of the evidence loop\<close>

definition constant_scorer :: "string list \<Rightarrow> rat list list" where
  "constant_scorer batch = map (\<lambda>blinded. [9/10, 1/10]) batch"

definition duplicate_chunk :: "sentence list" where
  "duplicate_chunk =
     [\<lparr>text = ''A binds B'', text_blinded = ''<e1> binds <e2>'', pmid = ''11''\<rparr>,
      \<lparr>text = ''A binds B'', text_blinded = ''<e1> binds <e2>'', pmid = ''22''\<rparr>]"

section \<open>Example inputs of predict\<close>

definition example_statement :: statement where
  "example_statement =
     \<lparr>class_name = ''Phosphorylation'', evidence = replicate 1000 (''12345678'', ''reactome'')\<rparr>"

definition example_database :: database where
  "example_database =
     \<lparr>name = ''reactome'', get_statements = (\<lambda>p1 p2. [example_statement])\<rparr>"

text \<open>
  Instances of the runtime collaborators for the examples. \<open>ascii_digits\<close> is
  \<open>str.isnumeric\<close> on ASCII strings. \<open>written_through\<close> is a runtime in which text
  of more than 8192 bytes does not stay in the buffers: CPython passes a single write
  longer than its buffers through to the file at once. The cutoffs of the examples,
  \<open>1/2\<close> and \<open>1\<close>, are single-precision numbers, which the rounding leaves as they
  are.
\<close>

definition ascii_digits :: "string \<Rightarrow> bool" where
  "ascii_digits s = (s \<noteq> [] \<and> list_all (\<lambda>c. CHR ''0'' \<le> c \<and> c \<le> CHR ''9'') s)"

definition written_through :: "string list \<Rightarrow> nat" where
  "written_through f = (if 8192 < length (concat f) then length (concat f) else 0)"

definition example_services :: services where
  "example_services =
     \<lparr>hgnc_to_gene_id = [''TP53'' \<mapsto> ''7157'', ''MDM2'' \<mapsto> ''4193''],
      geneid_to_name = [''7157'' \<mapsto> ''TP53'', ''4193'' \<mapsto> ''MDM2''],
      get_sentences = (\<lambda>p1 p2. []),
      model_probs = constant_scorer,
      id_to_label = [0 \<mapsto> ''controls-state-change-of'', 1 \<mapsto> ''in-complex-with''],
      format_2f = (\<lambda>score. if score = 9/10 then ''0.90'' else ''0.10''),
      str_isnumeric = ascii_digits,
      to_float32 = (\<lambda>x. x),
      flushed_while_open = written_through\<rparr>"

definition example_args :: predict_args where
  "example_args =
     \<lparr>args_p1 = [''MDM2''], args_p2 = [''TP53''], args_out = ''out'',
      args_pubtator = Some ''pubtator'', args_cutoff = 1/2, args_batch_size = 50,
      args_skip_reverse = True, args_dbs = [example_database]\<rparr>"

section \<open>Properties of the candidate pairs\<close>

lemma pairs_for_p1_eq:
  "pairs_for_p1 skip p1 p2s acc =
     acc @ concat (map (\<lambda>p2. if skip then [(p1, p2)] else [(p1, p2), (p2, p1)]) p2s)"
  by (induction p2s arbitrary: acc) (simp_all add: Let_def)

lemma pairs_loop_eq:
  "pairs_loop skip p1s p2s acc =
     acc @ concat (map (\<lambda>p1. concat (map (\<lambda>p2. if skip then [(p1, p2)] else [(p1, p2), (p2, p1)]) p2s)) p1s)"
  by (induction p1s arbitrary: acc) (simp_all add: pairs_for_p1_eq)

lemma product_as_concat:
  "List.product xs ys = concat (map (\<lambda>x. concat (map (\<lambda>y. [(x, y)]) ys)) xs)"
proof (induction xs)
  case Nil
  show ?case by simp
next
  case (Cons x xs)
  have "map (Pair x) ys = concat (map (\<lambda>y. [(x, y)]) ys)"
    by (induction ys) simp_all
  with Cons show ?case by simp
qed

text \<open>
  Claim C6. The work list is the cartesian product of the two identifier lists in list
  order; unless \<open>skip_reverse\<close> is set every forward pair is directly followed by its
  reverse pair. With \<open>skip_reverse\<close> the list is exactly the product. For the one-element
  lists \<open>[A]\<close> and \<open>[B]\<close> the result is \<open>[(A, B), (B, A)]\<close>, and \<open>[(A, B)]\<close> when
  \<open>skip_reverse\<close> is set.
\<close>

theorem pairs_to_query_interleaved:
  "pairs_to_query p1s p2s skip_reverse =
     concat (map (\<lambda>p1. concat (map (\<lambda>p2.
        if skip_reverse then [(p1, p2)] else [(p1, p2), (p2, p1)]) p2s)) p1s)
   \<and> pairs_to_query p1s p2s True = List.product p1s p2s
   \<and> pairs_to_query [A] [B] False = [(A, B), (B, A)]
   \<and> pairs_to_query [A] [B] True = [(A, B)]"
  by (simp add: pairs_to_query_def pairs_loop_eq product_as_concat)

theorem pairs_to_query_interleaved_witness:
  "pairs_to_query [''5599'', ''2475''] [''7157'', ''672''] False =
     [(''5599'', ''7157''), (''7157'', ''5599''), (''5599'', ''672''), (''672'', ''5599''),
      (''2475'', ''7157''), (''7157'', ''2475''), (''2475'', ''672''), (''672'', ''2475'')]"
  using pairs_to_query_interleaved [of "[''5599'', ''2475'']" "[''7157'', ''672'']" False]
  by simp

section \<open>Properties of the extraction ranker\<close>

lemma count_list_insort: "count_list (insort a xs) x = count_list (a # xs) x"
  by (induction xs) auto

lemma count_list_sort: "count_list (sort xs) x = count_list xs x"
  by (induction xs) (simp_all add: count_list_insort)

lemma count_list_sort_descending: "count_list (sort_descending xs) x = count_list xs x"
  by (simp add: sort_descending_def count_list_sort)

lemma count_row_cells:
  "distinct js \<Longrightarrow>
   count_list (concat (map (\<lambda>j. if row ! j = v then [(i, j)] else []) js)) (a, b) =
     (if a = i \<and> b \<in> set js \<and> row ! b = v then 1 else 0)"
  by (induction js) auto

lemma count_matrix_cells:
  "distinct is \<Longrightarrow>
   count_list (concat (map (\<lambda>i. concat (map (\<lambda>j. if probs ! i ! j = v then [(i, j)] else [])
       [0..<length (probs ! i)])) is)) (a, b) =
     (if a \<in> set is \<and> b < length (probs ! a) \<and> probs ! a ! b = v then 1 else 0)"
  by (induction "is") (auto simp: count_row_cells)

lemma count_where_eq:
  "count_list (where_eq probs v) (i, j) =
     (if i < length probs \<and> j < length (probs ! i) \<and> probs ! i ! j = v then 1 else 0)"
  unfolding where_eq_def using count_matrix_cells [of "[0..<length probs]" probs v i j]
  by simp

lemma count_tagged:
  "count_list (map (Pair m) cells) (v, ij) = (if m = v then count_list cells ij else 0)"
  by (induction cells) auto

lemma count_walk_cells:
  "count_list (walk_cells c probs vs) (v, i, j) =
     (if i < length probs \<and> j < length (probs ! i) \<and> probs ! i ! j = v \<and> \<not> v < c
      then count_list vs v else 0)"
proof (induction vs)
  case Nil
  show ?case by simp
next
  case (Cons m vs)
  have tagged: "count_list (map (\<lambda>(i, j). (m, i, j)) (where_eq probs m)) (v, i, j) =
      (if m = v \<and> i < length probs \<and> j < length (probs ! i) \<and> probs ! i ! j = v then 1 else 0)"
    using count_tagged [of m "where_eq probs m" v "(i, j)"] by (simp add: count_where_eq)
  show ?case
  proof (cases "m < c")
    case True
    with Cons show ?thesis by auto
  next
    case False
    with Cons tagged show ?thesis by auto
  qed
qed

lemma collect_Inr:
  "collect step xs = Inr ys \<Longrightarrow> list_all2 (\<lambda>x y. step x = Inr y) xs ys"
  by (induction xs arbitrary: ys) (auto split: sum.splits)

lemma collect_member:
  "collect step xs = Inr ys \<Longrightarrow> y \<in> set ys \<Longrightarrow> \<exists>x\<in>set xs. step x = Inr y"
  by (induction xs arbitrary: ys) (auto split: sum.splits)

lemma walk_cells_cutoff: "cell \<in> set (walk_cells c probs vs) \<Longrightarrow> c \<le> fst cell"
  by (induction vs) (auto split: if_splits)

lemma write_record_score:
  "write_record labels sents cell = Inr r \<Longrightarrow> rec_score r = fst cell"
  by (auto simp: write_record_def split: prod.splits option.splits if_splits)


text \<open>
  Claim C1. The walk over the sorted values runs the loop body once for every cell that
  holds the current value, and it never removes a cell: a cell \<open>(i, j)\<close> whose score
  \<open>v\<close> is not below the cutoff is visited as often as \<open>v\<close> occurs in the sorted list,
  every other triple never. On a run without exception the records written are, in
  order, those of the visited cells.
\<close>

theorem ranker_emits_every_tied_cell:
  "count_list (walk_cells c probs (sort_descending (concat probs))) (v, i, j) =
     (if i < length probs \<and> j < length (probs ! i) \<and> probs ! i ! j = v \<and> \<not> v < c
      then count_list (sort_descending (concat probs)) v else 0)
   \<and> (extraction_ranker labels sents c probs = Inr recs \<longrightarrow>
        list_all2 (\<lambda>cell r. write_record labels sents cell = Inr r)
          (walk_cells c probs (sort_descending (concat probs))) recs)"
  by (simp add: count_walk_cells extraction_ranker_def collect_Inr)

theorem ranker_emits_every_tied_cell_witness:
  "count_list (walk_cells (1/2) [[7/10, 1/10], [3/10, 7/10]]
      (sort_descending (concat [[7/10, 1/10], [3/10, 7/10]]))) (7/10, 1, 1) = 2
   \<and> extraction_ranker [0 \<mapsto> ''Activation'', 1 \<mapsto> ''Inhibition'']
        [\<lparr>text = ''A binds B'', text_blinded = ''<e1> binds <e2>'', pmid = ''11''\<rparr>,
         \<lparr>text = ''A blocks B'', text_blinded = ''<e1> blocks <e2>'', pmid = ''22''\<rparr>]
        (1/2) [[7/10, 1/10], [3/10, 7/10]] =
      Inr [\<lparr>rec_label = ''Activation'', rec_score = 7/10, rec_pmid = ''11'',
             rec_text = ''A binds B'', rec_source = ''PEDL''\<rparr>,
           \<lparr>rec_label = ''Inhibition'', rec_score = 7/10, rec_pmid = ''22'',
             rec_text = ''A blocks B'', rec_source = ''PEDL''\<rparr>,
           \<lparr>rec_label = ''Activation'', rec_score = 7/10, rec_pmid = ''11'',
             rec_text = ''A binds B'', rec_source = ''PEDL''\<rparr>,
           \<lparr>rec_label = ''Inhibition'', rec_score = 7/10, rec_pmid = ''22'',
             rec_text = ''A blocks B'', rec_source = ''PEDL''\<rparr>]"
  using ranker_emits_every_tied_cell
    [of "1/2" "[[7/10, 1/10], [3/10, 7/10]]" "7/10" 1 1
        "[0 \<mapsto> ''Activation'', 1 \<mapsto> ''Inhibition'']"
        "[\<lparr>text = ''A binds B'', text_blinded = ''<e1> binds <e2>'', pmid = ''11''\<rparr>,
          \<lparr>text = ''A blocks B'', text_blinded = ''<e1> blocks <e2>'', pmid = ''22''\<rparr>]"
        "[]"]
  by (simp add: extraction_ranker_def sort_descending_def where_eq_def write_record_def)

text \<open>
  Claim C2. Every record that the ranker emits has a score greater than or equal to the
  cutoff; a sorted value below the cutoff is skipped, it produces no record.
\<close>

theorem ranker_scores_reach_cutoff:
  "(extraction_ranker labels sents c probs = Inr recs \<longrightarrow> (\<forall>r\<in>set recs. c \<le> rec_score r))
   \<and> (v < c \<longrightarrow> walk_cells c probs (v # rest) = walk_cells c probs rest)"
proof (intro conjI impI ballI)
  fix r
  assume run: "extraction_ranker labels sents c probs = Inr recs" and r: "r \<in> set recs"
  let ?cells = "walk_cells c probs (sort_descending (concat probs))"
  from run r obtain cell where "cell \<in> set ?cells" and "write_record labels sents cell = Inr r"
    unfolding extraction_ranker_def by (blast dest: collect_member)
  then show "c \<le> rec_score r"
    using walk_cells_cutoff [of cell c probs] write_record_score [of labels sents cell r] by simp
next
  assume "v < c"
  then show "walk_cells c probs (v # rest) = walk_cells c probs rest" by simp
qed

theorem ranker_scores_reach_cutoff_witness:
  "extraction_ranker [0 \<mapsto> ''Activation'']
      [\<lparr>text = ''X activates Y'', text_blinded = ''<e1> activates <e2>'', pmid = ''123''\<rparr>]
      (1/2) [[9/10, 2/10]] =
     Inr [\<lparr>rec_label = ''Activation'', rec_score = 9/10, rec_pmid = ''123'',
            rec_text = ''X activates Y'', rec_source = ''PEDL''\<rparr>]
   \<and> (1/2 :: rat) \<le> 9/10
   \<and> (2/10 :: rat) < 1/2
   \<and> walk_cells (1/2) [[9/10, 2/10]] [2/10] = []"
proof -
  have run: "extraction_ranker [0 \<mapsto> ''Activation'']
      [\<lparr>text = ''X activates Y'', text_blinded = ''<e1> activates <e2>'', pmid = ''123''\<rparr>]
      (1/2) [[9/10, 2/10]] =
     Inr [\<lparr>rec_label = ''Activation'', rec_score = 9/10, rec_pmid = ''123'',
            rec_text = ''X activates Y'', rec_source = ''PEDL''\<rparr>]"
    by (simp add: extraction_ranker_def sort_descending_def where_eq_def write_record_def)
  have low: "(2/10 :: rat) < 1/2" by simp
  from ranker_scores_reach_cutoff
    [of "[0 \<mapsto> ''Activation'']"
        "[\<lparr>text = ''X activates Y'', text_blinded = ''<e1> activates <e2>'', pmid = ''123''\<rparr>]"
        "1/2" "[[9/10, 2/10]]"
        "[\<lparr>rec_label = ''Activation'', rec_score = 9/10, rec_pmid = ''123'',
            rec_text = ''X activates Y'', rec_source = ''PEDL''\<rparr>]"
        "2/10" "[]"] run low
  show ?thesis by simp
qed

section \<open>Properties of the crawl partition\<close>

lemma crawl_loop_filter:
  "N \<noteq> 0 \<Longrightarrow>
   crawl_loop N w body (enumerate k xs) s =
     process_each body (map snd (filter (\<lambda>(i, p). int i mod N = w) (enumerate k xs))) s"
  by (induction xs arbitrary: k s) (simp_all split: sum.splits)

lemma crawl_loop_zero:
  "crawl_loop 0 w body (enumerate k xs) s = (if xs = [] then Inr s else Inl ZeroDivisionError)"
  by (cases xs) simp_all

lemma enumerate_as_map: "enumerate 0 xs = map (\<lambda>p. (p, xs ! p)) [0..<length xs]"
proof -
  have "enumerate 0 xs = zip [0..<length xs] (map ((!) xs) [0..<length xs])"
    by (simp add: enumerate_eq_zip map_nth)
  also have "\<dots> = map (\<lambda>p. (p, xs ! p)) [0..<length xs]"
    by (simp add: zip_map2 zip_same_conv_map)
  finally show ?thesis .
qed

lemma filter_enumerate:
  "map snd (filter (\<lambda>(i, p). int i mod N = w) (enumerate 0 xs)) = worker_share N w xs"
proof -
  have "map snd (filter (\<lambda>(i, p). int i mod N = w) (map (\<lambda>p. (p, xs ! p)) ns)) =
      concat (map (\<lambda>p. if int p mod N = w then [xs ! p] else []) ns)" for ns
    by (induction ns) simp_all
  then show ?thesis by (simp add: enumerate_as_map worker_share_def)
qed

lemma crawl_loop_worker_share:
  "crawl_loop N w body (enumerate 0 pmids) s =
     (if N = 0 \<and> pmids \<noteq> [] then Inl ZeroDivisionError
      else process_each body (worker_share N w pmids) s)"
proof (cases "N = 0")
  case True
  then show ?thesis by (simp add: crawl_loop_zero worker_share_def)
next
  case False
  then show ?thesis by (simp add: crawl_loop_filter filter_enumerate)
qed

lemma set_worker_share:
  "set (worker_share N w xs) = {xs ! p | p. p < length xs \<and> int p mod N = w}"
  by (auto simp: worker_share_def)

lemma unique_worker:
  assumes "0 < N" and "distinct xs" and "x \<in> set xs"
  shows "\<exists>!w. 0 \<le> w \<and> w < N \<and> x \<in> set (worker_share N w xs)"
proof -
  from assms(3) obtain p where p: "p < length xs" "xs ! p = x"
    by (auto simp: in_set_conv_nth)
  have only: "q = p" if "q < length xs" "xs ! q = x" for q
    using that p assms(2) nth_eq_iff_index_eq [of xs q p] by simp
  show ?thesis
  proof (rule ex1I [of _ "int p mod N"])
    show "0 \<le> int p mod N \<and> int p mod N < N \<and> x \<in> set (worker_share N (int p mod N) xs)"
      using assms(1) p by (auto simp: set_worker_share)
  next
    fix w
    assume "0 \<le> w \<and> w < N \<and> x \<in> set (worker_share N w xs)"
    then obtain q where "q < length xs" "xs ! q = x" "int q mod N = w"
      by (auto simp: set_worker_share)
    with only show "w = int p mod N" by auto
  qed
qed

lemma keys_dict_add_new:
  "k \<notin> fst ` set d \<Longrightarrow> map fst (dict_add k v d) = map fst d @ [k]"
  by (induction d) auto

lemma keys_dict_add_old:
  "k \<in> fst ` set d \<Longrightarrow> map fst (dict_add k v d) = map fst d"
  by (induction d) force+

lemma distinct_dict_add: "distinct (map fst d) \<Longrightarrow> distinct (map fst (dict_add k v d))"
  by (cases "k \<in> fst ` set d") (simp_all add: keys_dict_add_new keys_dict_add_old)

lemma distinct_add_pmids:
  "distinct (map fst d) \<Longrightarrow> distinct (map fst (add_pmids pair ps d))"
  by (induction ps arbitrary: d) (simp_all add: distinct_dict_add)

lemma distinct_prepare_crawl:
  "distinct (map fst d) \<Longrightarrow> distinct (map fst (prepare_crawl dg order p2r d))"
  by (induction p2r arbitrary: d) (auto simp: distinct_add_pmids Let_def)

lemma sorted_keys_unique:
  assumes "sorted pmids" and "distinct pmids" and "set pmids = fst ` set m"
    and "distinct (map fst m)"
  shows "sort (map fst m) = pmids"
proof (rule sorted_distinct_set_unique)
  show "sorted (sort (map fst m))" by simp
  show "distinct (sort (map fst m))" using assms(4) by simp
  show "sorted pmids" by fact
  show "distinct pmids" by fact
  show "set (sort (map fst m)) = set pmids" using assms(3) by simp
qed

lemma build_training_set_share:
  assumes "read_triples triples ([], {}, {}) = Inr (pair_to_relations, gene_universe, chemical_universe)"
    and "dg = DataGetter chemical_universe gene_universe"
    and "pmid_to_pairs = prepare_crawl dg order pair_to_relations []"
    and "sorted pmids" and "distinct pmids" and "set pmids = fst ` set pmid_to_pairs"
  shows "build_training_set DataGetter order triples N w =
           (if N = 0 \<and> pmids \<noteq> [] then Inl ZeroDivisionError
            else process_each (crawl_pmid dg order pair_to_relations pmid_to_pairs)
                   (worker_share N w pmids) ([], []))"
proof -
  have "distinct (map fst pmid_to_pairs)"
    unfolding assms(3) using distinct_prepare_crawl [of "[]"] by simp
  from sorted_keys_unique [OF assms(4-6) this]
  have "sort (map fst pmid_to_pairs) = pmids" .
  then show ?thesis
    using assms(1) unfolding assms(2,3) build_training_set_def Let_def
    by (simp add: crawl_loop_worker_share del: join.simps)
qed

text \<open>
  Claim C4. For a positive worker count \<open>N\<close>, \<open>build_training_set\<close> run as worker \<open>w\<close>
  does exactly what running the loop body of lines 240-251, one PMID after the other,
  on the PMIDs at the positions \<open>p\<close> with \<open>p mod N = w\<close> of the sorted PMID list does:
  these PMIDs are processed, in order, and no other. The sorted PMID list is the list
  \<open>pmids\<close> that is sorted, has no duplicates and holds the keys of \<open>pmid_to_pairs\<close>.
  Every PMID of that list is in the share of exactly one worker id in \<open>[0, N)\<close>.
\<close>

theorem crawl_partition:
  assumes "0 < N"
    and "read_triples triples ([], {}, {}) = Inr (pair_to_relations, gene_universe, chemical_universe)"
    and "dg = DataGetter chemical_universe gene_universe"
    and "pmid_to_pairs = prepare_crawl dg order pair_to_relations []"
    and "sorted pmids" and "distinct pmids" and "set pmids = fst ` set pmid_to_pairs"
  shows "build_training_set DataGetter order triples N w =
           process_each (crawl_pmid dg order pair_to_relations pmid_to_pairs)
             (worker_share N w pmids) ([], [])
       \<and> (\<forall>x\<in>set pmids. \<exists>!v. 0 \<le> v \<and> v < N \<and> x \<in> set (worker_share N v pmids))"
  using build_training_set_share [where DataGetter = DataGetter and N = N and w = w, OF assms(2-7)]
    assms(1)
    unique_worker [OF assms(1) assms(6)]
  by simp


lemmas example_crawl_defs =
  build_training_set_def example_getter_def example_triples_def example_sentence_def
  insertion_order_def reverse_order_def add_to_universe_def set_add_def dict_get_def
  crawl_pmid_def

lemma corpus_read:
  "read_triples [[''Gene'', ''4193'', ''Gene'', ''7157'', ''binds'']] ([], {}, {}) =
     Inr ([((\<lparr>cuid = ''4193'', type = ''Gene''\<rparr>, \<lparr>cuid = ''7157'', type = ''Gene''\<rparr>), [''binds''])],
          {''7157'', ''4193''}, {})"
  by (simp add: add_to_universe_def)

lemma corpus_keys:
  "set [''10'', ''20'', ''30''] =
     fst ` set (prepare_crawl (corpus_getter {} {''7157'', ''4193''}) insertion_order
       [((\<lparr>cuid = ''4193'', type = ''Gene''\<rparr>, \<lparr>cuid = ''7157'', type = ''Gene''\<rparr>), [''binds''])] [])"
  by (auto simp: corpus_getter_def insertion_order_def)

theorem crawl_partition_witness:
  "(0::int) < 2
   \<and> build_training_set corpus_getter insertion_order
        [[''Gene'', ''4193'', ''Gene'', ''7157'', ''binds'']] 2 0 =
      Inr ([join TAB [''Gene'', ''4193'', ''Gene'', ''7157'', ''binds'', ''MDM2 binds TP53'', ''10''] @ NL,
            join TAB [''Gene'', ''4193'', ''Gene'', ''7157'', ''binds'', ''MDM2 binds TP53'', ''30''] @ NL],
           [join TAB [''Gene'', ''4193'', ''Gene'', ''7157'', ''binds'', ''<e1> binds <e2>'', ''10''] @ NL,
            join TAB [''Gene'', ''4193'', ''Gene'', ''7157'', ''binds'', ''<e1> binds <e2>'', ''30''] @ NL])
   \<and> build_training_set corpus_getter insertion_order
        [[''Gene'', ''4193'', ''Gene'', ''7157'', ''binds'']] 2 1 =
      Inr ([join TAB [''Gene'', ''4193'', ''Gene'', ''7157'', ''binds'', ''MDM2 binds TP53'', ''20''] @ NL],
           [join TAB [''Gene'', ''4193'', ''Gene'', ''7157'', ''binds'', ''<e1> binds <e2>'', ''20''] @ NL])"
proof -
  have n: "(0::int) < 2" by simp
  have s: "sorted [''10'', ''20'', ''30'']" by simp
  have d: "distinct [''10'', ''20'', ''30'']" by simp
  note w0 = crawl_partition [where DataGetter = corpus_getter and N = 2 and w = 0,
      OF n corpus_read refl refl s d corpus_keys, THEN conjunct1]
  note w1 = crawl_partition [where DataGetter = corpus_getter and N = 2 and w = 1,
      OF n corpus_read refl refl s d corpus_keys, THEN conjunct1]
  show ?thesis
    unfolding w0 w1
    by (simp add: worker_share_def corpus_getter_def insertion_order_def crawl_pmid_def
          dict_get_def set_add_def upt_rec)
qed

section \<open>Properties of the shard files\<close>

lemma write_sentences_lines:
  "write_sentences order head tail relations ss (f, fb) =
     (f @ map (\<lambda>s. training_line order text (head, tail, relations, s)) ss,
      fb @ map (\<lambda>s. training_line order text_blinded (head, tail, relations, s)) ss)"
  by (induction ss arbitrary: f fb) (simp_all add: training_line_def del: join.simps)

lemma write_pairs_lines:
  "write_pairs dg order p2r doc pairs (f, fb) =
     (f @ map (training_line order text)
            [(head, tail, dict_get p2r (head, tail), s).
               (head, tail) \<leftarrow> pairs, s \<leftarrow> get_sentences_from_document dg head tail doc],
      fb @ map (training_line order text_blinded)
            [(head, tail, dict_get p2r (head, tail), s).
               (head, tail) \<leftarrow> pairs, s \<leftarrow> get_sentences_from_document dg head tail doc])"
proof (induction pairs arbitrary: f fb)
  case Nil
  show ?case by simp
next
  case (Cons pair pairs)
  obtain head tail where pair: "pair = (head, tail)" by (cases pair)
  show ?case
    unfolding pair by (simp add: write_sentences_lines Cons.IH o_def)
qed

lemma crawl_pmid_lines:
  assumes "crawl_pmid dg order p2r m p (f, fb) = Inr files'"
  shows "files' = (f @ map (training_line order text) (training_records dg order p2r m p),
                   fb @ map (training_line order text_blinded) (training_records dg order p2r m p))"
  using assms unfolding crawl_pmid_def training_records_def
  by (auto split: list.splits simp: write_pairs_lines)

lemma process_each_lines:
  "process_each (crawl_pmid dg order p2r m) ps (f, fb) = Inr files' \<Longrightarrow>
   files' = (f @ map (training_line order text) (concat (map (training_records dg order p2r m) ps)),
             fb @ map (training_line order text_blinded)
                    (concat (map (training_records dg order p2r m) ps)))"
proof (induction ps arbitrary: f fb)
  case Nil
  then show ?case by simp
next
  case (Cons p ps)
  from Cons.prems obtain files1 where
    one: "crawl_pmid dg order p2r m p (f, fb) = Inr files1"
    and rest: "process_each (crawl_pmid dg order p2r m) ps files1 = Inr files'"
    by (auto split: sum.splits)
  from rest have "process_each (crawl_pmid dg order p2r m) ps
      (f @ map (training_line order text) (training_records dg order p2r m p),
       fb @ map (training_line order text_blinded) (training_records dg order p2r m p)) = Inr files'"
    unfolding crawl_pmid_lines [OF one] .
  from Cons.IH [OF this] show ?case by simp
qed

text \<open>
  Claim C10. When \<open>build_training_set\<close> completes, the raw shard is the list of the
  lines of the records of the worker's PMIDs with the sentence field \<open>text\<close>, and the
  blinded shard is the list of the lines of the same records with the sentence field
  \<open>text_blinded\<close>. A record is a head, a tail, the relations of the pair and a sentence
  that \<open>get_sentences_from_document\<close> returned for the pair and the document of the
  PMID. So both files have the same number of lines, and the two lines at one index
  agree on head type, head id, tail type, tail id, relation set and PMID, and hold
  \<open>text\<close> and \<open>text_blinded\<close> of the same sentence. A line is what one \<open>write\<close> call
  appends.
\<close>

theorem shard_files_line_aligned:
  assumes "read_triples triples ([], {}, {}) = Inr (pair_to_relations, gene_universe, chemical_universe)"
    and "dg = DataGetter chemical_universe gene_universe"
    and "pmid_to_pairs = prepare_crawl dg order pair_to_relations []"
    and "sorted pmids" and "distinct pmids" and "set pmids = fst ` set pmid_to_pairs"
    and "recs = concat (map (training_records dg order pair_to_relations pmid_to_pairs)
                          (worker_share n_worker worker_id pmids))"
    and "build_training_set DataGetter order triples n_worker worker_id = Inr (f, f_blinded)"
  shows "f = map (training_line order text) recs
       \<and> f_blinded = map (training_line order text_blinded) recs
       \<and> length f = length f_blinded"
proof -
  from build_training_set_share
    [where DataGetter = DataGetter and N = n_worker and w = worker_id, OF assms(1-6)] assms(8)
  have "process_each (crawl_pmid dg order pair_to_relations pmid_to_pairs)
          (worker_share n_worker worker_id pmids) ([], []) = Inr (f, f_blinded)"
    by (cases "n_worker = 0 \<and> pmids \<noteq> []") auto
  from process_each_lines [OF this] show ?thesis
    unfolding assms(7) by simp
qed

theorem shard_files_line_aligned_witness:
  "build_training_set corpus_getter reverse_order
      [[''Gene'', ''4193'', ''Gene'', ''7157'', ''binds'']] 1 0 =
     Inr ([join TAB [''Gene'', ''4193'', ''Gene'', ''7157'', ''binds'', ''MDM2 binds TP53'', ''10''] @ NL,
           join TAB [''Gene'', ''4193'', ''Gene'', ''7157'', ''binds'', ''MDM2 binds TP53'', ''20''] @ NL,
           join TAB [''Gene'', ''4193'', ''Gene'', ''7157'', ''binds'', ''MDM2 binds TP53'', ''30''] @ NL],
          [join TAB [''Gene'', ''4193'', ''Gene'', ''7157'', ''binds'', ''<e1> binds <e2>'', ''10''] @ NL,
           join TAB [''Gene'', ''4193'', ''Gene'', ''7157'', ''binds'', ''<e1> binds <e2>'', ''20''] @ NL,
           join TAB [''Gene'', ''4193'', ''Gene'', ''7157'', ''binds'', ''<e1> binds <e2>'', ''30''] @ NL])"
proof -
  let ?T = "[[''Gene'', ''4193'', ''Gene'', ''7157'', ''binds'']]"
  let ?P = "[((\<lparr>cuid = ''4193'', type = ''Gene''\<rparr>, \<lparr>cuid = ''7157'', type = ''Gene''\<rparr>), [''binds''])]"
  let ?dg = "corpus_getter {} {''7157'', ''4193''}"
  let ?m = "prepare_crawl ?dg reverse_order ?P []"
  have keys: "set [''10'', ''20'', ''30''] = fst ` set ?m"
    by (auto simp: corpus_getter_def reverse_order_def)
  have s: "sorted [''10'', ''20'', ''30'']" by simp
  have d: "distinct [''10'', ''20'', ''30'']" by simp
  obtain f fb where run: "build_training_set corpus_getter reverse_order ?T 1 0 = Inr (f, fb)"
    using build_training_set_share
      [where DataGetter = corpus_getter and N = 1 and w = 0, OF corpus_read refl refl s d keys]
    by (simp add: worker_share_def corpus_getter_def reverse_order_def crawl_pmid_def
          dict_get_def set_add_def upt_rec)
  from shard_files_line_aligned
    [where DataGetter = corpus_getter, OF corpus_read refl refl s d keys refl run]
  show ?thesis
    unfolding run
    by (simp add: worker_share_def training_records_def training_line_def corpus_getter_def
          reverse_order_def dict_get_def set_add_def upt_rec)
qed

text \<open>
  Claim C5. The relation field is \<open>",".join(relations)\<close> over a Python set, and the
  pairs of a PMID are a set as well; the code sorts neither. Two runs on the same two
  triples for one pair, with the same worker arguments and the same data getter, that
  differ only in the iteration order of the sets write different bytes.
\<close>

theorem shard_bytes_depend_on_set_order:
  "build_training_set example_getter insertion_order example_triples 1 0 =
     Inr ([join TAB [''Gene'', ''4193'', ''Gene'', ''7157'', ''binds,inhibits'', ''MDM2 binds TP53'', ''100''] @ NL],
          [join TAB [''Gene'', ''4193'', ''Gene'', ''7157'', ''binds,inhibits'', ''<e1> binds <e2>'', ''100''] @ NL])
   \<and> build_training_set example_getter reverse_order example_triples 1 0 =
     Inr ([join TAB [''Gene'', ''4193'', ''Gene'', ''7157'', ''inhibits,binds'', ''MDM2 binds TP53'', ''100''] @ NL],
          [join TAB [''Gene'', ''4193'', ''Gene'', ''7157'', ''inhibits,binds'', ''<e1> binds <e2>'', ''100''] @ NL])
   \<and> build_training_set example_getter insertion_order example_triples 1 0 \<noteq>
       build_training_set example_getter reverse_order example_triples 1 0"
  by (simp add: example_crawl_defs)

section \<open>Properties of chunking, batched scoring and deduplication\<close>

lemma chunks_from_Nil [simp]: "chunks_from n [] = []"
  by (subst chunks_from.simps) simp

lemma chunks_from_Cons [simp]:
  "0 < n \<Longrightarrow> chunks_from n (x # xs) = take n (x # xs) # chunks_from n (drop n (x # xs))"
  by (subst chunks_from.simps) simp

lemma chunks_from_step:
  "0 < n \<Longrightarrow> lst \<noteq> [] \<Longrightarrow> chunks_from n lst = take n lst # chunks_from n (drop n lst)"
  by (subst chunks_from.simps) simp

lemma chunks_from_zero [simp]: "chunks_from 0 lst = []"
  by (subst chunks_from.simps) simp

lemma concat_chunks_from: "0 < n \<Longrightarrow> concat (chunks_from n xs) = xs"
proof (induction n xs rule: chunks_from.induct)
  case (1 n lst)
  show ?case
  proof (cases "lst = []")
    case True
    then show ?thesis by simp
  next
    case False
    with 1 have "concat (chunks_from n (drop n lst)) = drop n lst" by simp
    with False 1(2) show ?thesis by (simp add: chunks_from_step)
  qed
qed

lemma chunks_from_bounds: "c \<in> set (chunks_from n xs) \<Longrightarrow> c \<noteq> [] \<and> length c \<le> n"
proof (induction n xs rule: chunks_from.induct)
  case (1 n lst)
  show ?case
  proof (cases "n = 0 \<or> lst = []")
    case True
    with 1(2) show ?thesis by auto
  next
    case False
    with 1(2) have "c = take n lst \<or> c \<in> set (chunks_from n (drop n lst))"
      by (simp add: chunks_from_step)
    with False 1(1) show ?thesis by auto
  qed
qed

lemma chunks_from_nth:
  "k < length (chunks_from n xs) \<Longrightarrow> chunks_from n xs ! k = take n (drop (k * n) xs)"
proof (induction n xs arbitrary: k rule: chunks_from.induct)
  case (1 n lst)
  show ?case
  proof (cases "n = 0 \<or> lst = []")
    case True
    with 1(2) show ?thesis by auto
  next
    case False
    then have unfold: "chunks_from n lst = take n lst # chunks_from n (drop n lst)"
      by (simp add: chunks_from_step)
    show ?thesis
    proof (cases k)
      case 0
      then show ?thesis by (simp add: unfold)
    next
      case (Suc j)
      with 1(2) have "j < length (chunks_from n (drop n lst))" by (simp add: unfold)
      with 1(1) False have "chunks_from n (drop n lst) ! j = take n (drop (j * n) (drop n lst))"
        by simp
      then show ?thesis by (simp add: unfold Suc add.commute)
    qed
  qed
qed

lemma chunks_from_map: "chunks_from n (map f xs) = map (map f) (chunks_from n xs)"
proof (induction n xs rule: chunks_from.induct)
  case (1 n lst)
  show ?case
  proof (cases "n = 0 \<or> lst = []")
    case True
    then show ?thesis by auto
  next
    case False
    with 1 have "chunks_from n (map f (drop n lst)) = map (map f) (chunks_from n (drop n lst))"
      by simp
    with False show ?thesis
      by (simp add: chunks_from_step take_map drop_map)
  qed
qed

lemma chunks_from_nonempty: "0 < n \<Longrightarrow> xs \<noteq> [] \<Longrightarrow> chunks_from n xs \<noteq> []"
  by (simp add: chunks_from_step)

lemma score_batches_eq:
  "score_batches scorer batches probs = probs @ map (\<lambda>b. scorer (map text_blinded b)) batches"
  by (induction batches arbitrary: probs) simp_all


lemma index_select_in_range:
  "\<forall>i\<in>set indices. i < length t \<Longrightarrow> index_select t indices = Inr (map ((!) t) indices)"
  by (simp add: index_select_def list_all_iff)

lemma forward_chunks_eq:
  "\<forall>c\<in>set cs. \<forall>i\<in>set c. i < length ids \<and> i < length msk \<Longrightarrow>
   forward_chunks fwd ids msk cs (L, A, R) =
     Inr (L @ map (\<lambda>c. fst (fwd (map ((!) ids) c) (map ((!) msk) c))) cs,
          A @ map (\<lambda>c. fst (snd (fwd (map ((!) ids) c) (map ((!) msk) c)))) cs,
          R @ map (\<lambda>c. snd (snd (fwd (map ((!) ids) c) (map ((!) msk) c)))) cs)"
proof (induction cs arbitrary: L A R)
  case Nil
  show ?case by simp
next
  case (Cons c cs)
  then have c: "index_select ids c = Inr (map ((!) ids) c)" "index_select msk c = Inr (map ((!) msk) c)"
    by (simp_all add: index_select_in_range)
  from Cons show ?case
    by (simp add: c split: prod.splits)
qed

lemma index_chunks_in_range:
  assumes "0 < n" and "c \<in> set (chunks_from n [0..<m])" and "i \<in> set c"
  shows "i < m"
proof -
  from assms(2,3) have "i \<in> set (concat (chunks_from n [0..<m]))" by auto
  with assms(1) show ?thesis by (simp add: concat_chunks_from)
qed

lemma rows_of_index_chunks:
  assumes "0 < n" and len: "length msk = length ids"
    and rowwise: "\<And>b m. length b = length m \<Longrightarrow> snd (snd (fwd b m)) = map2 f b m"
  shows "concat (map (\<lambda>c. snd (snd (fwd (map ((!) ids) c) (map ((!) msk) c))))
           (chunks_from n [0..<length ids])) = map2 f ids msk"
proof -
  have "concat (map (\<lambda>c. snd (snd (fwd (map ((!) ids) c) (map ((!) msk) c)))) cs) =
      map (\<lambda>i. f (ids ! i) (msk ! i)) (concat cs)" for cs
    by (induction cs) (simp_all add: rowwise zip_map_map zip_same_conv_map)
  then have "concat (map (\<lambda>c. snd (snd (fwd (map ((!) ids) c) (map ((!) msk) c))))
           (chunks_from n [0..<length ids])) = map (\<lambda>i. f (ids ! i) (msk ! i)) [0..<length ids]"
    using assms(1) by (simp add: concat_chunks_from)
  also have "\<dots> = map2 f ids msk"
    using len by (intro nth_equalityI) simp_all
  finally show ?thesis .
qed

lemma forward_batched_rows:
  assumes len: "length msk = length ids"
    and rowwise: "\<And>b m. length b = length m \<Longrightarrow> snd (snd (fwd b m)) = map2 f b m"
  shows "forward_batched fwd ids msk 0 = Inr (fwd ids msk)"
    and "0 < n \<Longrightarrow> ids \<noteq> [] \<Longrightarrow>
         forward_batched fwd ids msk n =
           Inr (concat (map (\<lambda>c. fst (fwd (map ((!) ids) c) (map ((!) msk) c))) (chunks_from n [0..<length ids])),
                concat (map (\<lambda>c. fst (snd (fwd (map ((!) ids) c) (map ((!) msk) c)))) (chunks_from n [0..<length ids])),
                map2 f ids msk)"
    and "0 < n \<Longrightarrow> ids = [] \<Longrightarrow> forward_batched fwd ids msk n = Inl RuntimeError"
proof -
  show "forward_batched fwd ids msk 0 = Inr (fwd ids msk)"
    by (simp add: forward_batched_def)
next
  assume n: "0 < n" and ne: "ids \<noteq> []"
  have range: "\<forall>c\<in>set (chunks_from n [0..<length ids]). \<forall>i\<in>set c. i < length ids \<and> i < length msk"
    using index_chunks_in_range [OF n] len by auto
  have cs: "chunks_from n [0..<length ids] \<noteq> []"
    using n ne by (simp add: chunks_from_nonempty)
  show "forward_batched fwd ids msk n =
           Inr (concat (map (\<lambda>c. fst (fwd (map ((!) ids) c) (map ((!) msk) c))) (chunks_from n [0..<length ids])),
                concat (map (\<lambda>c. fst (snd (fwd (map ((!) ids) c) (map ((!) msk) c)))) (chunks_from n [0..<length ids])),
                map2 f ids msk)"
    using n cs rows_of_index_chunks [OF n len rowwise]
    by (simp add: forward_batched_def chunks_def forward_chunks_eq [OF range] torch_cat_def)
next
  assume n: "0 < n" and e: "ids = []"
  then show "forward_batched fwd ids msk n = Inl RuntimeError"
    by (simp add: forward_batched_def chunks_def torch_cat_def)
qed

lemma gather_rows:
  assumes rowwise: "\<And>b. scorer b = map g b" and n: "0 < n"
  shows "gather scorer n batches_in (probs, sents, seen) = Inr (probs', sents', seen') \<Longrightarrow>
         concat probs = map g (map text_blinded sents) \<Longrightarrow>
         concat probs' = map g (map text_blinded sents')"
proof (induction batches_in arbitrary: probs sents seen)
  case Nil
  then show ?case by simp
next
  case (Cons chunk batches_in)
  let ?kept = "filter (\<lambda>i. text i \<notin> seen) (sort_key (\<lambda>x. length (text x)) chunk)"
  have batches: "concat (map (\<lambda>b. scorer (map text_blinded b)) (chunks_from n ?kept)) =
      map g (map text_blinded ?kept)"
  proof -
    have "concat (map (\<lambda>b. scorer (map text_blinded b)) cs) = map g (map text_blinded (concat cs))"
      for cs :: "sentence list list"
      by (induction cs) (simp_all add: rowwise)
    from this [of "chunks_from n ?kept"] show ?thesis
      unfolding concat_chunks_from [OF n] .
  qed
  from Cons.prems(1) n have rest: "gather scorer n batches_in
      (score_batches scorer (chunks_from n ?kept) probs, sents @ ?kept, seen \<union> set (map text ?kept)) =
      Inr (probs', sents', seen')"
    by (simp add: Let_def chunks_def)
  show ?case
    by (rule Cons.IH [OF rest]) (simp add: score_batches_eq batches Cons.prems(2))
qed


lemma gather_dedup_across_chunks:
  "gather scorer n batches_in (probs, sents, seen) = Inr (probs', sents', seen') \<Longrightarrow>
   seen = set (map text sents) \<Longrightarrow> distinct (map text sents) \<Longrightarrow>
   \<forall>c\<in>set batches_in. distinct (map text c) \<Longrightarrow>
   distinct (map text sents') \<and> seen' = set (map text sents')"
proof (induction batches_in arbitrary: probs sents seen)
  case Nil
  then show ?case by auto
next
  case (Cons chunk batches_in)
  let ?kept = "filter (\<lambda>i. text i \<notin> seen) (sort_key (\<lambda>x. length (text x)) chunk)"
  from Cons.prems(1) obtain bs where
    rest: "gather scorer n batches_in
      (score_batches scorer bs probs, sents @ ?kept, seen \<union> set (map text ?kept)) =
      Inr (probs', sents', seen')"
    by (auto simp: Let_def split: option.splits)
  from Cons.prems(4) have "distinct (map text chunk)" by simp
  then have kept: "distinct (map text ?kept)"
    by (simp add: distinct_map inj_on_def)
  have "set (map text sents) \<inter> set (map text ?kept) = {}"
    using Cons.prems(2) by (auto simp: image_iff)
  then have "distinct (map text (sents @ ?kept))"
    using Cons.prems(3) kept by simp
  moreover have "seen \<union> set (map text ?kept) = set (map text (sents @ ?kept))"
    using Cons.prems(2) by simp
  moreover from Cons.prems(4) have "\<forall>c\<in>set batches_in. distinct (map text c)" by simp
  ultimately show ?case using Cons.IH [OF rest] by blast
qed

text \<open>
  Claim C8. For a positive size, \<open>chunks\<close> splits a sequence into consecutive non-empty
  chunks of at most that size whose concatenation is the sequence. \<open>forward_batched\<close>
  with a falsy batch size is one call of \<open>forward\<close> on the whole input; otherwise it
  calls \<open>forward\<close> per chunk and concatenates. When \<open>forward\<close> scores row by row (row
  \<open>i\<close> of its output is \<open>f\<close> of input row \<open>i\<close>), row \<open>i\<close> of the batched output is \<open>f\<close> of
  input row \<open>i\<close>, for every batch size; the call returns for every non-empty input. The
  loop of \<open>predict\<close> keeps the same alignment between \<open>probs\<close> and \<open>all_sentences\<close>.
\<close>

theorem batched_scoring_keeps_order:
  assumes len: "length attention_mask = length input_ids"
    and rowwise: "\<And>b m. length b = length m \<Longrightarrow> snd (snd (forward b m)) = map2 f b m"
    and scorer: "\<And>b. scorer b = map g b"
  shows "(0 < n \<longrightarrow> chunks xs n = Some (chunks_from n xs) \<and> concat (chunks_from n xs) = xs
            \<and> (\<forall>c\<in>set (chunks_from n xs). c \<noteq> [] \<and> length c \<le> n))
     \<and> forward_batched forward input_ids attention_mask 0 = Inr (forward input_ids attention_mask)
     \<and> (input_ids \<noteq> [] \<or> batch_size = 0 \<longrightarrow>
          (\<exists>logits alphas. forward_batched forward input_ids attention_mask batch_size =
             Inr (logits, alphas, map2 f input_ids attention_mask)))
     \<and> (0 < batch_size \<and>
          gather scorer batch_size sentence_chunks ([], [], {}) = Inr (probs, all_sentences, seen) \<longrightarrow>
          concat probs = map g (map text_blinded all_sentences))"
proof (intro conjI impI)
  assume "0 < n"
  then show "chunks xs n = Some (chunks_from n xs)" by (simp add: chunks_def)
next
  assume "0 < n"
  then show "concat (chunks_from n xs) = xs" by (rule concat_chunks_from)
next
  show "\<forall>c\<in>set (chunks_from n xs). c \<noteq> [] \<and> length c \<le> n"
    using chunks_from_bounds by blast
next
  show "forward_batched forward input_ids attention_mask 0 = Inr (forward input_ids attention_mask)"
    by (simp add: forward_batched_def)
next
  assume ne: "input_ids \<noteq> [] \<or> batch_size = 0"
  show "\<exists>logits alphas. forward_batched forward input_ids attention_mask batch_size =
             Inr (logits, alphas, map2 f input_ids attention_mask)"
  proof (cases "batch_size = 0")
    case True
    obtain l a r where out: "forward input_ids attention_mask = (l, a, r)"
      by (cases "forward input_ids attention_mask") auto
    with rowwise [of input_ids attention_mask] len have "r = map2 f input_ids attention_mask"
      by simp
    with out True show ?thesis by (simp add: forward_batched_def)
  next
    case False
    with ne have "0 < batch_size" "input_ids \<noteq> []" by auto
    from forward_batched_rows(2) [OF len rowwise this] show ?thesis by blast
  qed
next
  assume "0 < batch_size \<and>
          gather scorer batch_size sentence_chunks ([], [], {}) = Inr (probs, all_sentences, seen)"
  then show "concat probs = map g (map text_blinded all_sentences)"
    using gather_rows [of scorer g batch_size sentence_chunks "[]" "[]" "{}" probs all_sentences seen]
      scorer by simp
qed

theorem batched_scoring_keeps_order_witness:
  "chunks [10, 20, 30, 40, 50 :: nat] 2 = Some [[10, 20], [30, 40], [50]]
   \<and> forward_batched (\<lambda>b m. ([length b], map2 (+) b m, map2 (\<lambda>x y. [x, y]) b m))
        [10, 20, 30 :: nat] [1, 1, 0 :: nat] 2 =
      Inr ([2, 1], [11, 21, 30], [[10, 1], [20, 1], [30, 0]])
   \<and> gather constant_scorer 1 [duplicate_chunk] ([], [], {}) =
      Inr ([[[9/10, 1/10]], [[9/10, 1/10]]], duplicate_chunk, {''A binds B''})"
proof -
  have len: "length [1, 1, 0 :: nat] = length [10, 20, 30 :: nat]" by simp
  have rowwise: "\<And>b m :: nat list. length b = length m \<Longrightarrow>
      snd (snd ([length b], map2 (+) b m, map2 (\<lambda>x y. [x, y]) b m)) = map2 (\<lambda>x y. [x, y]) b m"
    by simp
  have scorer: "\<And>b. constant_scorer b = map (\<lambda>blinded. [9/10, 1/10]) b"
    by (simp add: constant_scorer_def)
  note inst = batched_scoring_keeps_order
    [of "[1, 1, 0 :: nat]" "[10, 20, 30 :: nat]"
        "\<lambda>b m. ([length b], map2 (+) b m, map2 (\<lambda>x y. [x, y]) b m)" "\<lambda>x y. [x, y]"
        constant_scorer "\<lambda>blinded. [9/10, 1/10]" 2 "[10, 20, 30, 40, 50 :: nat]" 2
        "[duplicate_chunk]", OF len rowwise scorer]
  have gathered: "gather constant_scorer 1 [duplicate_chunk] ([], [], {}) =
      Inr ([[[9/10, 1/10]], [[9/10, 1/10]]], duplicate_chunk, {''A binds B''})"
    by (simp add: constant_scorer_def duplicate_chunk_def chunks_def Let_def)
  from inst gathered show ?thesis
    by (simp add: forward_batched_def chunks_def index_select_def torch_cat_def upt_rec)
qed

text \<open>
  Claim C9. The filter of line 148 compares a sentence with the texts of the chunks
  processed before; \<open>processed_sentences\<close> is updated only after the whole chunk has
  been filtered. Two sentences of one chunk with the same raw text are both kept and
  both scored. (Across chunks the texts kept are distinct:
  \<open>gather_dedup_across_chunks\<close>.)
\<close>

theorem duplicates_within_a_chunk_are_kept:
  "gather constant_scorer 50 [duplicate_chunk] ([], [], {}) =
     Inr ([[[9/10, 1/10], [9/10, 1/10]]], duplicate_chunk, {''A binds B''})
   \<and> map text duplicate_chunk = [''A binds B'', ''A binds B'']"
  by (simp add: constant_scorer_def duplicate_chunk_def chunks_def Let_def)

section \<open>Properties of predict: safety cap and output files\<close>

lemma maybe_mapped_numeric:
  "list_all isnumeric ps \<Longrightarrow> maybe_mapped isnumeric hgnc ps mapped = Inr (mapped @ ps)"
  by (induction ps arbitrary: mapped) simp_all

lemma length_pairs_to_query:
  "length (pairs_to_query p1s p2s skip) = (if skip then 1 else 2) * length p1s * length p2s"
proof -
  have inner: "length (concat (map (\<lambda>p2. if skip then [(p1, p2)] else [(p1, p2), (p2, p1)]) p2s)) =
      (if skip then 1 else 2) * length p2s" for p1 :: string
    by (induction p2s) auto
  have "length (concat (map (\<lambda>p1. concat (map (\<lambda>p2.
        if skip then [(p1, p2)] else [(p1, p2), (p2, p1)]) p2s)) p1s)) =
      (if skip then 1 else 2) * length p1s * length p2s"
    by (induction p1s) (simp_all add: inner algebra_simps)
  then show ?thesis by (simp add: pairs_to_query_def pairs_loop_eq)
qed

text \<open>
  Claim C7. When the identifiers resolve, no local PubTator copy is given and more than
  100 pairs were generated, \<open>predict\<close> prints the message of line 76 and leaves through
  \<open>sys.exit(1)\<close>. No file is touched, and the result does not depend on the evidence
  provider, the databases or the scoring model: none of them is called before the
  check.
\<close>

theorem oversized_remote_query_exits:
  assumes "maybe_mapped (str_isnumeric svc) (hgnc_to_gene_id svc) (args_p1 args) [] = Inr p1s"
    and "maybe_mapped (str_isnumeric svc) (hgnc_to_gene_id svc) (args_p2 args) [] = Inr p2s"
    and "args_pubtator args = None"
    and "100 < length (pairs_to_query p1s p2s (args_skip_reverse args))"
  shows "predict svc args fs =
           (fs, [cap_message (length (pairs_to_query p1s p2s (args_skip_reverse args)))], Exit 1)
       \<and> predict (svc\<lparr>get_sentences := retrieval, model_probs := scoring\<rparr>)
            (args\<lparr>args_dbs := databases\<rparr>) fs = predict svc args fs"
  using assms by (simp add: predict_def Let_def)

lemma ascii_digits_7157: "ascii_digits ''7157''"
  by (simp add: ascii_digits_def)

lemma str_nat_102: "str_nat 102 = ''102''"
  by (simp add: str_nat.simps [of 102] str_nat.simps [of 10] str_nat.simps [of "Suc 0"])

theorem oversized_remote_query_exits_witness:
  "predict example_services
      (example_args\<lparr>args_p1 := replicate 51 ''7157'', args_p2 := [''4193''],
         args_pubtator := None, args_skip_reverse := False\<rparr>) Map.empty =
     (Map.empty,
      [''Using PEDL without a local PubTator copy is only supported for small queries up to 100 protein pairs. Your query contains 102 pairs. Aborting.''],
      Exit 1)"
proof -
  let ?args = "example_args\<lparr>args_p1 := replicate 51 ''7157'', args_p2 := [''4193''],
         args_pubtator := None, args_skip_reverse := False\<rparr>"
  have isnum: "str_isnumeric example_services = ascii_digits"
    by (simp add: example_services_def)
  have m1: "maybe_mapped (str_isnumeric example_services) (hgnc_to_gene_id example_services)
      (args_p1 ?args) [] = Inr (replicate 51 ''7157'')"
    using maybe_mapped_numeric [of ascii_digits "replicate 51 ''7157''" _ "[]"]
    by (simp add: list_all_iff ascii_digits_7157 isnum)
  have m2: "maybe_mapped (str_isnumeric example_services) (hgnc_to_gene_id example_services)
      (args_p2 ?args) [] = Inr [''4193'']"
    by (simp add: isnum ascii_digits_def)
  have p: "args_pubtator ?args = None" by simp
  have n: "100 < length (pairs_to_query (replicate 51 ''7157'') [''4193''] (args_skip_reverse ?args))"
    by (simp add: length_pairs_to_query)
  from oversized_remote_query_exits [OF m1 m2 p n, of Map.empty]
  show ?thesis by (simp add: length_pairs_to_query cap_message_def str_nat_102)
qed










lemma exception_leaves_an_empty_file:
  "run_pairs (example_services\<lparr>get_sentences := (\<lambda>p1 p2. [duplicate_chunk])\<rparr>)
      (example_args\<lparr>args_batch_size := 0, args_dbs := []\<rparr>) [(''4193'', ''7157'')] Map.empty =
     ([''out/MDM2-TP53.txt'' \<mapsto> []], Raised (ValueError ''chunk size''))"
  by (simp add: example_services_def example_args_def process_pair_def rank_and_write_def
        chunks_def Let_def leave_raising_def fopen_w_def fclose_def path_out_def gene_name_def)







end
